theory Spec2Isabelle
  imports Main
begin

section \<open>The device state monitor of the device notifier applet\<close>

text \<open>
  A shallow embedding of \<^verbatim>\<open>src/applets/devicenotifier/devicestatemonitor_p.cpp\<close>.
  The class \<^verbatim>\<open>DevicesStateMonitor\<close> keeps one \<^verbatim>\<open>DeviceInfo\<close> per device
  identifier (udi) in the hash \<^verbatim>\<open>m_devicesStates\<close>, connects its slots to the signals of
  the Solid interface objects of a device, and emits \<^verbatim>\<open>stateChanged(udi)\<close>.

  The monitor is modelled by explicit state passing. What the code reads from outside the
  class (the Solid device behind a udi, the clock) is an argument of the model, and what it
  does to the outside (connect, disconnect, emit) is written, in program order, to a log.
\<close>

subsection \<open>Values of Qt and Solid\<close>

type_synonym QString = string

text \<open>The identity of a QObject (the address of a Solid interface object).\<close>

type_synonym QObject = nat

text \<open>
  \<^verbatim>\<open>QDateTime\<close>: the default constructed value is the null date; a valid one is a number
  of milliseconds since the epoch (UTC).
\<close>

datatype QDateTime = NullDateTime | DateTime int

text \<open>
  \<^verbatim>\<open>QVariant\<close>, with the payloads an operation of Solid reports: nothing, a truth value,
  a number or a text. \<^verbatim>\<open>QVariant()\<close> is \<open>QVariant_Invalid\<close>.
\<close>

datatype QVariant =
    QVariant_Invalid
  | QVariant_Bool bool
  | QVariant_Int int
  | QVariant_String string

definition toLower :: "char \<Rightarrow> char" where
  "toLower c =
     (let n = (of_char c :: nat) in if 65 \<le> n \<and> n \<le> 90 then char_of (n + 32) else c)"

text \<open>
  \<^verbatim>\<open>QVariant::toBool()\<close>: a truth value is itself, a number is true when it is not zero,
  a text is true unless its lower-case content is empty, \<^verbatim>\<open>0\<close> or \<^verbatim>\<open>false\<close>, and an
  invalid variant is false.
\<close>

fun toBool :: "QVariant \<Rightarrow> bool" where
  "toBool QVariant_Invalid = False"
| "toBool (QVariant_Bool b) = b"
| "toBool (QVariant_Int n) = (n \<noteq> 0)"
| "toBool (QVariant_String str) =
     (let l = map toLower str in l \<noteq> [] \<and> l \<noteq> ''0'' \<and> l \<noteq> ''false'')"

text \<open>\<^verbatim>\<open>Solid::ErrorType\<close>.\<close>

datatype ErrorType =
    NoError
  | UnauthorizedOperation
  | DeviceBusy
  | OperationFailed
  | UserCanceled
  | InvalidOption
  | MissingDriver

text \<open>
  The interface objects of a Solid device, as far as the monitor reads them:
  \<^verbatim>\<open>Solid::StorageAccess\<close> (\<^verbatim>\<open>canCheck()\<close>, \<^verbatim>\<open>canRepair()\<close>, \<^verbatim>\<open>isAccessible()\<close>) and
  \<^verbatim>\<open>Solid::StorageDrive\<close> (\<^verbatim>\<open>isRemovable()\<close>, \<^verbatim>\<open>isHotpluggable()\<close>), each with the
  identity of the object that sends its signals.
\<close>

record StorageAccess =
  access_object :: QObject
  access_canCheck :: bool
  access_canRepair :: bool
  access_isAccessible :: bool

record StorageDrive =
  drive_object :: QObject
  drive_isRemovable :: bool
  drive_isHotpluggable :: bool

text \<open>
  \<^verbatim>\<open>Solid::Device device(udi)\<close>: what Solid answers for a udi at the moment of the call.
  \<open>is_T\<close> is \<^verbatim>\<open>device.is<Solid::T>()\<close>, \<open>as_T\<close> is \<^verbatim>\<open>device.as<Solid::T>()\<close>
  (\<open>None\<close> for the null pointer), and \<open>ancestor_T\<close> is \<^verbatim>\<open>getAncestorAs<Solid::T>(device)\<close>,
  a template of the header \<^verbatim>\<open>devicestatemonitor_p.h\<close>, which is not among the sources:
  its result is taken as a property of the device.
\<close>

record Device =
  isValid :: bool
  is_OpticalDisc :: bool
  is_StorageVolume :: bool
  is_StorageDrive :: bool
  is_Camera :: bool
  is_PortableMediaPlayer :: bool
  as_StorageAccess :: "StorageAccess option"
  as_StorageDrive :: "StorageDrive option"
  as_Camera :: "QObject option"
  as_PortableMediaPlayer :: "QObject option"
  ancestor_OpticalDrive :: "QObject option"
  ancestor_StorageDrive :: "StorageDrive option"

text \<open>
  The world outside the monitor at the moment of a call: the devices of Solid and the value
  of \<^verbatim>\<open>QDateTime::currentDateTimeUtc()\<close> in milliseconds.
\<close>

record Env =
  solid :: "QString \<Rightarrow> Device"
  currentDateTimeUtc :: int

subsection \<open>The data of the monitor\<close>

text \<open>
  \<^verbatim>\<open>DevicesStateMonitor::State\<close>. The enumeration is declared in the header, which is
  not among the sources; these are the ten enumerators the source file names.
\<close>

datatype State =
    NotPresent
  | Idle
  | Mounting
  | Unmounting
  | Checking
  | Repairing
  | MountDone
  | UnmountDone
  | CheckDone
  | RepairDone

text \<open>\<^verbatim>\<open>DeviceInfo\<close>, with the fields of the designated initialiser of \<^verbatim>\<open>addMonitoringDevice\<close>.\<close>

record DeviceInfo =
  isBusy :: bool
  isRemovable :: bool
  isMounted :: bool
  isChecked :: bool
  needRepair :: bool
  operationResult :: ErrorType
  operationInfo :: QVariant
  state :: State
  deviceTimeStamp :: QDateTime

text \<open>The signals of Solid the monitor connects to, and the slots it connects them to.\<close>

datatype Signal =
    ejectRequested
  | ejectDone
  | accessibilityChanged
  | setupRequested
  | setupDone
  | teardownRequested
  | teardownDone
  | checkRequested
  | checkDone
  | repairRequested
  | repairDone

datatype Slot =
    Slot_setMountingState
  | Slot_setUnmountingState
  | Slot_setCheckingState
  | Slot_setRepairingState
  | Slot_setAccessibilityState
  | Slot_setIdleState

text \<open>
  What a member function does beyond writing a field of a record, in program order:
  inserting and erasing an entry of \<^verbatim>\<open>m_devicesStates\<close>, \<^verbatim>\<open>connect\<close>,
  \<^verbatim>\<open>disconnect(sender, nullptr, this, nullptr)\<close> and \<^verbatim>\<open>Q_EMIT stateChanged(udi)\<close>.
\<close>

datatype Effect =
    Emplace QString
  | Erase QString
  | Connect QObject Signal Slot
  | Disconnect QObject
  | Emit_stateChanged QString

text \<open>
  The monitor: the hash \<^verbatim>\<open>m_devicesStates\<close>, the connections from Solid objects to the
  slots of \<^verbatim>\<open>this\<close> (Qt keeps them in the order they were made, and keeps duplicates), and
  the log of effects since construction.
\<close>

record DevicesStateMonitor =
  m_devicesStates :: "QString \<rightharpoonup> DeviceInfo"
  connections :: "(QObject \<times> Signal \<times> Slot) list"
  effects :: "Effect list"

text \<open>A dereference of a null pointer ends the process.\<close>

datatype Fault = NullPointerDereference

subsection \<open>Primitive steps\<close>

definition DevicesStateMonitor_new :: DevicesStateMonitor where
  "DevicesStateMonitor_new = \<lparr>m_devicesStates = Map.empty, connections = [], effects = []\<rparr>"

definition emplace :: "QString \<Rightarrow> DeviceInfo \<Rightarrow> DevicesStateMonitor \<Rightarrow> DevicesStateMonitor" where
  "emplace udi info s =
     s\<lparr>m_devicesStates := (m_devicesStates s)(udi \<mapsto> info),
       effects := effects s @ [Emplace udi]\<rparr>"

definition erase :: "QString \<Rightarrow> DevicesStateMonitor \<Rightarrow> DevicesStateMonitor" where
  "erase udi s =
     s\<lparr>m_devicesStates := (m_devicesStates s)(udi := None),
       effects := effects s @ [Erase udi]\<rparr>"

text \<open>A write through the iterator \<^verbatim>\<open>it\<close> of a found entry: \<^verbatim>\<open>it->field = value\<close>.\<close>

definition assign ::
  "QString \<Rightarrow> (DeviceInfo \<Rightarrow> DeviceInfo) \<Rightarrow> DevicesStateMonitor \<Rightarrow> DevicesStateMonitor" where
  "assign udi f s =
     (case m_devicesStates s udi of
        None \<Rightarrow> s
      | Some info \<Rightarrow> s\<lparr>m_devicesStates := (m_devicesStates s)(udi \<mapsto> f info)\<rparr>)"

definition connect ::
  "QObject \<Rightarrow> Signal \<Rightarrow> Slot \<Rightarrow> DevicesStateMonitor \<Rightarrow> DevicesStateMonitor" where
  "connect sender sig slot s =
     s\<lparr>connections := connections s @ [(sender, sig, slot)],
       effects := effects s @ [Connect sender sig slot]\<rparr>"

definition disconnect :: "QObject \<Rightarrow> DevicesStateMonitor \<Rightarrow> DevicesStateMonitor" where
  "disconnect sender s =
     s\<lparr>connections := filter (\<lambda>c. fst c \<noteq> sender) (connections s),
       effects := effects s @ [Disconnect sender]\<rparr>"

definition stateChanged :: "QString \<Rightarrow> DevicesStateMonitor \<Rightarrow> DevicesStateMonitor" where
  "stateChanged udi s = s\<lparr>effects := effects s @ [Emit_stateChanged udi]\<rparr>"

text \<open>The notifications in a log, oldest first.\<close>

fun emitted :: "Effect list \<Rightarrow> QString list" where
  "emitted [] = []"
| "emitted (Emit_stateChanged udi # es) = udi # emitted es"
| "emitted (_ # es) = emitted es"

subsection \<open>addMonitoringDevice\<close>

text \<open>
  The record of a new device (lines 56 to 66); the time stamp is the time of the call.
\<close>

definition initialDeviceInfo :: "Env \<Rightarrow> DeviceInfo" where
  "initialDeviceInfo env =
     \<lparr>isBusy = False,
      isRemovable = False,
      isMounted = False,
      isChecked = False,
      needRepair = False,
      operationResult = NoError,
      operationInfo = QVariant_Invalid,
      state = Idle,
      deviceTimeStamp = DateTime (currentDateTimeUtc env)\<rparr>"

text \<open>Lines 70 to 76: an optical disc listens to the eject signals of its drive.\<close>

definition addOpticalDisc :: "Device \<Rightarrow> DevicesStateMonitor \<Rightarrow> DevicesStateMonitor" where
  "addOpticalDisc device s =
     (if is_OpticalDisc device then
        (case ancestor_OpticalDrive device of
           Some drive \<Rightarrow>
             connect drive ejectDone Slot_setIdleState
               (connect drive ejectRequested Slot_setUnmountingState s)
         | None \<Rightarrow> s)
      else s)"

text \<open>
  Lines 86 to 93: the check and repair signals are connected only when the storage access
  can check, respectively repair.
\<close>

definition addCheck :: "StorageAccess \<Rightarrow> DevicesStateMonitor \<Rightarrow> DevicesStateMonitor" where
  "addCheck access s =
     (if access_canCheck access then
        connect (access_object access) checkDone Slot_setIdleState
          (connect (access_object access) checkRequested Slot_setCheckingState s)
      else s)"

definition addRepair :: "StorageAccess \<Rightarrow> DevicesStateMonitor \<Rightarrow> DevicesStateMonitor" where
  "addRepair access s =
     (if access_canRepair access then
        connect (access_object access) repairDone Slot_setIdleState
          (connect (access_object access) repairRequested Slot_setRepairingState s)
      else s)"

text \<open>
  Lines 78 to 97: a storage volume with a storage access listens to its signals, and
  \<^verbatim>\<open>isMounted\<close> becomes \<^verbatim>\<open>access->isAccessible()\<close>.
\<close>

definition addStorageVolume ::
  "Device \<Rightarrow> QString \<Rightarrow> DevicesStateMonitor \<Rightarrow> DevicesStateMonitor" where
  "addStorageVolume device udi s =
     (if is_StorageVolume device then
        (case as_StorageAccess device of
           Some access \<Rightarrow>
             (let obj = access_object access;
                  s1 = connect obj accessibilityChanged Slot_setAccessibilityState s;
                  s2 = connect obj setupRequested Slot_setMountingState s1;
                  s3 = connect obj setupDone Slot_setIdleState s2;
                  s4 = connect obj teardownRequested Slot_setUnmountingState s3;
                  s5 = connect obj teardownDone Slot_setIdleState s4;
                  s6 = addCheck access s5;
                  s7 = addRepair access s6
              in assign udi (\<lambda>it. it\<lparr>isMounted := access_isAccessible access\<rparr>) s7)
         | None \<Rightarrow> s)
      else s)"

text \<open>Lines 99 to 104.\<close>

definition addStorageDrive ::
  "Device \<Rightarrow> QString \<Rightarrow> DevicesStateMonitor \<Rightarrow> DevicesStateMonitor" where
  "addStorageDrive device udi s =
     (if is_StorageDrive device then
        (case as_StorageDrive device of
           Some storagedrive \<Rightarrow>
             assign udi (\<lambda>it. it\<lparr>isRemovable := drive_isRemovable storagedrive\<rparr>) s
         | None \<Rightarrow> s)
      else s)"

text \<open>Lines 106 to 110: the drive among the ancestors of the device overwrites the flag.\<close>

definition addAncestorDrive ::
  "Device \<Rightarrow> QString \<Rightarrow> DevicesStateMonitor \<Rightarrow> DevicesStateMonitor" where
  "addAncestorDrive device udi s =
     (case ancestor_StorageDrive device of
        Some drive \<Rightarrow>
          assign udi
            (\<lambda>it. it\<lparr>isRemovable := drive_isRemovable drive \<or> drive_isHotpluggable drive\<rparr>) s
      | None \<Rightarrow> s)"

text \<open>Lines 112 to 117.\<close>

definition addCamera :: "Device \<Rightarrow> QString \<Rightarrow> DevicesStateMonitor \<Rightarrow> DevicesStateMonitor" where
  "addCamera device udi s =
     (if is_Camera device then
        (case as_Camera device of
           Some camera \<Rightarrow> assign udi (\<lambda>it. it\<lparr>isRemovable := True\<rparr>) s
         | None \<Rightarrow> s)
      else s)"

text \<open>Lines 119 to 124.\<close>

definition addPortableMediaPlayer ::
  "Device \<Rightarrow> QString \<Rightarrow> DevicesStateMonitor \<Rightarrow> DevicesStateMonitor" where
  "addPortableMediaPlayer device udi s =
     (if is_PortableMediaPlayer device then
        (case as_PortableMediaPlayer device of
           Some mediaplayer \<Rightarrow> assign udi (\<lambda>it. it\<lparr>isRemovable := True\<rparr>) s
         | None \<Rightarrow> s)
      else s)"

text \<open>
  \<^verbatim>\<open>DevicesStateMonitor::addMonitoringDevice\<close> (lines 46 to 128): nothing for a udi that
  is monitored already; otherwise the blocks above in the order of the source, then the
  notification.
\<close>

definition addMonitoringDevice ::
  "Env \<Rightarrow> QString \<Rightarrow> DevicesStateMonitor \<Rightarrow> DevicesStateMonitor" where
  "addMonitoringDevice env udi s =
     (if m_devicesStates s udi \<noteq> None then s
      else
        (let device = solid env udi;
             s1 = emplace udi (initialDeviceInfo env) s;
             s2 = addOpticalDisc device s1;
             s3 = addStorageVolume device udi s2;
             s4 = addStorageDrive device udi s3;
             s5 = addAncestorDrive device udi s4;
             s6 = addCamera device udi s5;
             s7 = addPortableMediaPlayer device udi s6
         in stateChanged udi s7))"

subsection \<open>removeMonitoringDevice\<close>

text \<open>
  Lines 136 to 147: the signals of the storage access of a storage volume are disconnected;
  those of the drive of an optical disc only when the device is not a storage volume.
\<close>

definition removeConnections :: "Device \<Rightarrow> DevicesStateMonitor \<Rightarrow> DevicesStateMonitor" where
  "removeConnections device s =
     (if is_StorageVolume device then
        (case as_StorageAccess device of
           Some access \<Rightarrow> disconnect (access_object access) s
         | None \<Rightarrow> s)
      else if is_OpticalDisc device then
        (case ancestor_OpticalDrive device of
           Some drive \<Rightarrow> disconnect drive s
         | None \<Rightarrow> s)
      else s)"

text \<open>
  \<^verbatim>\<open>DevicesStateMonitor::removeMonitoringDevice\<close> (lines 130 to 155): for a monitored
  udi the entry is erased, then the signals are disconnected, then the notification is
  emitted; nothing for another udi.
\<close>

definition removeMonitoringDevice ::
  "Env \<Rightarrow> QString \<Rightarrow> DevicesStateMonitor \<Rightarrow> DevicesStateMonitor" where
  "removeMonitoringDevice env udi s =
     (if m_devicesStates s udi \<noteq> None then
        (let s1 = erase udi s;
             device = solid env udi;
             s2 = removeConnections device s1
         in stateChanged udi s2)
      else s)"

subsection \<open>The queries\<close>

text \<open>
  Lines 157 to 227. The five queries that share their name with a field of
  \<^verbatim>\<open>DeviceInfo\<close> carry the suffix \<open>_udi\<close>.
\<close>

definition isBusy_udi :: "DevicesStateMonitor \<Rightarrow> QString \<Rightarrow> bool" where
  "isBusy_udi s udi = (case m_devicesStates s udi of Some it \<Rightarrow> isBusy it | None \<Rightarrow> False)"

definition isRemovable_udi :: "DevicesStateMonitor \<Rightarrow> QString \<Rightarrow> bool" where
  "isRemovable_udi s udi =
     (case m_devicesStates s udi of Some it \<Rightarrow> isRemovable it | None \<Rightarrow> False)"

definition isMounted_udi :: "DevicesStateMonitor \<Rightarrow> QString \<Rightarrow> bool" where
  "isMounted_udi s udi =
     (case m_devicesStates s udi of Some it \<Rightarrow> isMounted it | None \<Rightarrow> False)"

definition isChecked_udi :: "DevicesStateMonitor \<Rightarrow> QString \<Rightarrow> bool" where
  "isChecked_udi s udi =
     (case m_devicesStates s udi of Some it \<Rightarrow> isChecked it | None \<Rightarrow> False)"

definition needRepair_udi :: "DevicesStateMonitor \<Rightarrow> QString \<Rightarrow> bool" where
  "needRepair_udi s udi =
     (case m_devicesStates s udi of Some it \<Rightarrow> needRepair it | None \<Rightarrow> False)"

definition getDeviceTimeStamp :: "DevicesStateMonitor \<Rightarrow> QString \<Rightarrow> QDateTime" where
  "getDeviceTimeStamp s udi =
     (case m_devicesStates s udi of Some it \<Rightarrow> deviceTimeStamp it | None \<Rightarrow> NullDateTime)"

definition getState :: "DevicesStateMonitor \<Rightarrow> QString \<Rightarrow> State" where
  "getState s udi = (case m_devicesStates s udi of Some it \<Rightarrow> state it | None \<Rightarrow> NotPresent)"

definition getOperationResult :: "DevicesStateMonitor \<Rightarrow> QString \<Rightarrow> ErrorType" where
  "getOperationResult s udi =
     (case m_devicesStates s udi of Some it \<Rightarrow> operationResult it | None \<Rightarrow> NoError)"

definition getOperationInfo :: "DevicesStateMonitor \<Rightarrow> QString \<Rightarrow> QVariant" where
  "getOperationInfo s udi =
     (case m_devicesStates s udi of
        Some it \<Rightarrow> operationInfo it
      | None \<Rightarrow> QVariant_Invalid)"

subsection \<open>The slots\<close>

text \<open>
  \<^verbatim>\<open>setMountingState\<close>, \<^verbatim>\<open>setUnmountingState\<close>, \<^verbatim>\<open>setCheckingState\<close> and
  \<^verbatim>\<open>setRepairingState\<close> (lines 229 to 267): for a monitored udi the record becomes busy in
  the state of the operation and the notification is emitted; nothing for another udi.
\<close>

definition setMountingState :: "QString \<Rightarrow> DevicesStateMonitor \<Rightarrow> DevicesStateMonitor" where
  "setMountingState udi s =
     (if m_devicesStates s udi \<noteq> None then
        stateChanged udi (assign udi (\<lambda>it. it\<lparr>isBusy := True, state := Mounting\<rparr>) s)
      else s)"

definition setUnmountingState :: "QString \<Rightarrow> DevicesStateMonitor \<Rightarrow> DevicesStateMonitor" where
  "setUnmountingState udi s =
     (if m_devicesStates s udi \<noteq> None then
        stateChanged udi (assign udi (\<lambda>it. it\<lparr>isBusy := True, state := Unmounting\<rparr>) s)
      else s)"

definition setCheckingState :: "QString \<Rightarrow> DevicesStateMonitor \<Rightarrow> DevicesStateMonitor" where
  "setCheckingState udi s =
     (if m_devicesStates s udi \<noteq> None then
        stateChanged udi (assign udi (\<lambda>it. it\<lparr>isBusy := True, state := Checking\<rparr>) s)
      else s)"

definition setRepairingState :: "QString \<Rightarrow> DevicesStateMonitor \<Rightarrow> DevicesStateMonitor" where
  "setRepairingState udi s =
     (if m_devicesStates s udi \<noteq> None then
        stateChanged udi (assign udi (\<lambda>it. it\<lparr>isBusy := True, state := Repairing\<rparr>) s)
      else s)"

text \<open>
  \<^verbatim>\<open>setAccessibilityState\<close> (lines 269 to 277): the record and the notification only when
  the value differs from \<^verbatim>\<open>isMounted\<close>.
\<close>

definition setAccessibilityState ::
  "bool \<Rightarrow> QString \<Rightarrow> DevicesStateMonitor \<Rightarrow> DevicesStateMonitor" where
  "setAccessibilityState isAccessible udi s =
     (case m_devicesStates s udi of
        Some it \<Rightarrow>
          (if isMounted it \<noteq> isAccessible then
             stateChanged udi (assign udi (\<lambda>it. it\<lparr>isMounted := isAccessible\<rparr>) s)
           else s)
      | None \<Rightarrow> s)"

text \<open>
  Line 296: \<^verbatim>\<open>(operationResult == Solid::NoError) ? !operationInfo.toBool() && access->canRepair() : false\<close>.
  The pointer \<^verbatim>\<open>access\<close> is not tested; it is dereferenced only when the result is
  \<^verbatim>\<open>NoError\<close> and the information is false, by the order of evaluation of \<^verbatim>\<open>?:\<close> and
  \<^verbatim>\<open>&&\<close>.
\<close>

definition checkNeedRepair :: "Device \<Rightarrow> ErrorType \<Rightarrow> QVariant \<Rightarrow> Fault + bool" where
  "checkNeedRepair device result info =
     (if result = NoError then
        (if \<not> toBool info then
           (case as_StorageAccess device of
              None \<Rightarrow> Inl NullPointerDereference
            | Some access \<Rightarrow> Inr (access_canRepair access))
         else Inr False)
      else Inr False)"

text \<open>
  Lines 293 to 316: the record after the end of an operation, by the state it was in.
  Lines 305 and 310 dereference \<^verbatim>\<open>access\<close> without a test.
\<close>

definition operationDone ::
  "Device \<Rightarrow> ErrorType \<Rightarrow> QVariant \<Rightarrow> DeviceInfo \<Rightarrow> Fault + DeviceInfo" where
  "operationDone device result info it =
     (if state it = Checking then
        (case checkNeedRepair device result info of
           Inl fault \<Rightarrow> Inl fault
         | Inr repair \<Rightarrow> Inr (it\<lparr>isChecked := True, needRepair := repair, state := CheckDone\<rparr>))
      else if state it = Repairing then
        Inr (it\<lparr>needRepair := (result \<noteq> NoError), state := RepairDone\<rparr>)
      else if state it = Mounting then
        (case as_StorageAccess device of
           None \<Rightarrow> Inl NullPointerDereference
         | Some access \<Rightarrow> Inr (it\<lparr>isMounted := access_isAccessible access, state := MountDone\<rparr>))
      else if state it = Unmounting then
        (case as_StorageAccess device of
           None \<Rightarrow> Inl NullPointerDereference
         | Some access \<Rightarrow>
             Inr (it\<lparr>isMounted := access_isAccessible access, state := UnmountDone\<rparr>))
      else Inr (it\<lparr>state := Idle\<rparr>))"

text \<open>
  \<^verbatim>\<open>setIdleState\<close> (lines 279 to 319): nothing when the device is not valid, and nothing
  for a udi that is not monitored; otherwise the result and the information are stored, the
  record leaves the busy state, and the notification is emitted.
\<close>

definition setIdleState ::
  "Env \<Rightarrow> ErrorType \<Rightarrow> QVariant \<Rightarrow> QString \<Rightarrow> DevicesStateMonitor \<Rightarrow> Fault + DevicesStateMonitor"
  where
  "setIdleState env result info udi s =
     (let device = solid env udi in
      if \<not> isValid device then Inr s
      else
        (case m_devicesStates s udi of
           None \<Rightarrow> Inr s
         | Some it \<Rightarrow>
             (case operationDone device result info
                     (it\<lparr>isBusy := False, operationResult := result, operationInfo := info\<rparr>) of
                Inl fault \<Rightarrow> Inl fault
              | Inr it' \<Rightarrow> Inr (stateChanged udi (assign udi (\<lambda>_. it') s)))))"

subsection \<open>Sequences of calls\<close>

text \<open>
  A call of a public member function or slot of the monitor; each happens in a world of its
  own (the devices and the time at that moment).
\<close>

datatype Call =
    Call_addMonitoringDevice QString
  | Call_removeMonitoringDevice QString
  | Call_setMountingState QString
  | Call_setUnmountingState QString
  | Call_setCheckingState QString
  | Call_setRepairingState QString
  | Call_setAccessibilityState bool QString
  | Call_setIdleState ErrorType QVariant QString

fun call_udi :: "Call \<Rightarrow> QString" where
  "call_udi (Call_addMonitoringDevice udi) = udi"
| "call_udi (Call_removeMonitoringDevice udi) = udi"
| "call_udi (Call_setMountingState udi) = udi"
| "call_udi (Call_setUnmountingState udi) = udi"
| "call_udi (Call_setCheckingState udi) = udi"
| "call_udi (Call_setRepairingState udi) = udi"
| "call_udi (Call_setAccessibilityState isAccessible udi) = udi"
| "call_udi (Call_setIdleState result info udi) = udi"

fun exec :: "Env \<Rightarrow> Call \<Rightarrow> DevicesStateMonitor \<Rightarrow> Fault + DevicesStateMonitor" where
  "exec env (Call_addMonitoringDevice udi) s = Inr (addMonitoringDevice env udi s)"
| "exec env (Call_removeMonitoringDevice udi) s = Inr (removeMonitoringDevice env udi s)"
| "exec env (Call_setMountingState udi) s = Inr (setMountingState udi s)"
| "exec env (Call_setUnmountingState udi) s = Inr (setUnmountingState udi s)"
| "exec env (Call_setCheckingState udi) s = Inr (setCheckingState udi s)"
| "exec env (Call_setRepairingState udi) s = Inr (setRepairingState udi s)"
| "exec env (Call_setAccessibilityState isAccessible udi) s =
     Inr (setAccessibilityState isAccessible udi s)"
| "exec env (Call_setIdleState result info udi) s = setIdleState env result info udi s"

text \<open>A sequence of calls ends at the first fault.\<close>

fun run :: "(Env \<times> Call) list \<Rightarrow> DevicesStateMonitor \<Rightarrow> Fault + DevicesStateMonitor" where
  "run [] s = Inr s"
| "run ((env, c) # cs) s =
     (case exec env c s of Inl fault \<Rightarrow> Inl fault | Inr s' \<Rightarrow> run cs s')"

subsection \<open>The record of a registered device\<close>

text \<open>
  The values \<^verbatim>\<open>addMonitoringDevice\<close> leaves in \<^verbatim>\<open>isMounted\<close> and \<^verbatim>\<open>isRemovable\<close>
  of a new record, in closed form (lemma \<open>devices_addMonitoringDevice\<close> below): a later
  assignment of the source overwrites an earlier one.
\<close>

definition probedMounted :: "Device \<Rightarrow> bool" where
  "probedMounted device =
     (if is_StorageVolume device then
        (case as_StorageAccess device of Some access \<Rightarrow> access_isAccessible access | None \<Rightarrow> False)
      else False)"

definition probedRemovable :: "Device \<Rightarrow> bool" where
  "probedRemovable device =
     (if is_PortableMediaPlayer device \<and> as_PortableMediaPlayer device \<noteq> None then True
      else if is_Camera device \<and> as_Camera device \<noteq> None then True
      else
        (case ancestor_StorageDrive device of
           Some drive \<Rightarrow> drive_isRemovable drive \<or> drive_isHotpluggable drive
         | None \<Rightarrow>
             (if is_StorageDrive device then
                (case as_StorageDrive device of
                   Some storagedrive \<Rightarrow> drive_isRemovable storagedrive
                 | None \<Rightarrow> False)
              else False)))"

definition registeredInfo :: "Env \<Rightarrow> Device \<Rightarrow> DeviceInfo" where
  "registeredInfo env device =
     (initialDeviceInfo env)\<lparr>isRemovable := probedRemovable device, isMounted := probedMounted device\<rparr>"

subsection \<open>Example devices\<close>

text \<open>
  Concrete worlds for the examples below. In \<open>world device t\<close> Solid answers \<open>device\<close>
  for every udi and the clock shows \<open>t\<close>.
\<close>

definition world :: "Device \<Rightarrow> int \<Rightarrow> Env" where
  "world device t = \<lparr>solid = (\<lambda>udi. device), currentDateTimeUtc = t\<rparr>"

text \<open>A device with no interface at all, valid or not.\<close>

definition bare_device :: "bool \<Rightarrow> Device" where
  "bare_device valid =
     \<lparr>isValid = valid,
      is_OpticalDisc = False,
      is_StorageVolume = False,
      is_StorageDrive = False,
      is_Camera = False,
      is_PortableMediaPlayer = False,
      as_StorageAccess = None,
      as_StorageDrive = None,
      as_Camera = None,
      as_PortableMediaPlayer = None,
      ancestor_OpticalDrive = None,
      ancestor_StorageDrive = None\<rparr>"

text \<open>
  A partition of a USB stick: a storage volume with a storage access (object 7) that can
  check and repair and is mounted or not, on a removable, hotpluggable drive (object 3).
\<close>

definition usb_volume :: "bool \<Rightarrow> Device" where
  "usb_volume mounted =
     (bare_device True)
       \<lparr>is_StorageVolume := True,
        as_StorageAccess :=
          Some \<lparr>access_object = 7, access_canCheck = True, access_canRepair = True,
                access_isAccessible = mounted\<rparr>,
        ancestor_StorageDrive :=
          Some \<lparr>drive_object = 3, drive_isRemovable = True, drive_isHotpluggable = True\<rparr>\<rparr>"

text \<open>
  A storage volume whose storage access Solid does not hand out:
  \<^verbatim>\<open>device.as<Solid::StorageAccess>()\<close> is the null pointer.
\<close>

definition volume_without_access :: Device where
  "volume_without_access = (bare_device True)\<lparr>is_StorageVolume := True\<rparr>"

text \<open>
  An external hard disk registered as a drive: a storage drive that is hotpluggable and not
  removable, with no drive among its ancestors.
\<close>

definition hotplug_drive :: Device where
  "hotplug_drive =
     (bare_device True)
       \<lparr>is_StorageDrive := True,
        as_StorageDrive :=
          Some \<lparr>drive_object = 4, drive_isRemovable = False, drive_isHotpluggable = True\<rparr>\<rparr>"

text \<open>
  A removable storage drive that has a drive among its ancestors which is neither removable
  nor hotpluggable.
\<close>

definition removable_drive_on_fixed_drive :: Device where
  "removable_drive_on_fixed_drive =
     (bare_device True)
       \<lparr>is_StorageDrive := True,
        as_StorageDrive :=
          Some \<lparr>drive_object = 5, drive_isRemovable = True, drive_isHotpluggable = False\<rparr>,
        ancestor_StorageDrive :=
          Some \<lparr>drive_object = 6, drive_isRemovable = False, drive_isHotpluggable = False\<rparr>\<rparr>"

subsection \<open>Notions for the proofs\<close>

text \<open>
  The relation between \<^verbatim>\<open>isBusy\<close> and \<^verbatim>\<open>state\<close> of a record, and of every record of
  a monitor.
\<close>

definition consistent :: "DeviceInfo \<Rightarrow> bool" where
  "consistent it = (isBusy it = (state it \<in> {Mounting, Unmounting, Checking, Repairing}))"

definition allConsistent :: "DevicesStateMonitor \<Rightarrow> bool" where
  "allConsistent s = (\<forall>udi it. m_devicesStates s udi = Some it \<longrightarrow> consistent it)"





section \<open>Properties\<close>

subsection \<open>What each step does to the records and to the notifications\<close>

lemma emitted_append: "emitted (xs @ ys) = emitted xs @ emitted ys"
  by (induction xs rule: emitted.induct) simp_all

lemma devices_emplace: "m_devicesStates (emplace udi info s) = (m_devicesStates s)(udi \<mapsto> info)"
  by (simp add: emplace_def)

lemma devices_erase: "m_devicesStates (erase udi s) = (m_devicesStates s)(udi := None)"
  by (simp add: erase_def)

lemma devices_connect: "m_devicesStates (connect obj sig slot s) = m_devicesStates s"
  by (simp add: connect_def)

lemma devices_disconnect: "m_devicesStates (disconnect obj s) = m_devicesStates s"
  by (simp add: disconnect_def)

lemma devices_stateChanged: "m_devicesStates (stateChanged udi s) = m_devicesStates s"
  by (simp add: stateChanged_def)

lemma devices_assign:
  "m_devicesStates (assign udi f s) =
     (case m_devicesStates s udi of
        None \<Rightarrow> m_devicesStates s
      | Some it \<Rightarrow> (m_devicesStates s)(udi \<mapsto> f it))"
  by (simp add: assign_def split: option.splits)

lemma emitted_emplace: "emitted (effects (emplace udi info s)) = emitted (effects s)"
  by (simp add: emplace_def emitted_append)

lemma emitted_erase: "emitted (effects (erase udi s)) = emitted (effects s)"
  by (simp add: erase_def emitted_append)

lemma emitted_connect: "emitted (effects (connect obj sig slot s)) = emitted (effects s)"
  by (simp add: connect_def emitted_append)

lemma emitted_disconnect: "emitted (effects (disconnect obj s)) = emitted (effects s)"
  by (simp add: disconnect_def emitted_append)

lemma emitted_assign: "emitted (effects (assign udi f s)) = emitted (effects s)"
  by (simp add: assign_def split: option.splits)

lemma emitted_stateChanged:
  "emitted (effects (stateChanged udi s)) = emitted (effects s) @ [udi]"
  by (simp add: stateChanged_def emitted_append)

lemmas devices_simps = devices_emplace devices_erase devices_connect devices_disconnect
  devices_stateChanged devices_assign

lemmas emitted_simps = emitted_emplace emitted_erase emitted_connect emitted_disconnect
  emitted_assign emitted_stateChanged

lemma devices_addOpticalDisc: "m_devicesStates (addOpticalDisc device s) = m_devicesStates s"
  by (simp add: addOpticalDisc_def devices_simps split: option.splits)

lemma emitted_addOpticalDisc: "emitted (effects (addOpticalDisc device s)) = emitted (effects s)"
  by (simp add: addOpticalDisc_def emitted_simps split: option.splits)

lemma devices_addCheck: "m_devicesStates (addCheck access s) = m_devicesStates s"
  by (simp add: addCheck_def devices_simps)

lemma devices_addRepair: "m_devicesStates (addRepair access s) = m_devicesStates s"
  by (simp add: addRepair_def devices_simps)

lemma emitted_addCheck: "emitted (effects (addCheck access s)) = emitted (effects s)"
  by (simp add: addCheck_def emitted_simps)

lemma emitted_addRepair: "emitted (effects (addRepair access s)) = emitted (effects s)"
  by (simp add: addRepair_def emitted_simps)

lemma emitted_addStorageVolume:
  "emitted (effects (addStorageVolume device udi s)) = emitted (effects s)"
  by (simp add: addStorageVolume_def Let_def emitted_simps emitted_addCheck emitted_addRepair
      split: option.splits)

lemma devices_addStorageVolume:
  assumes "m_devicesStates s udi = Some it"
  shows "m_devicesStates (addStorageVolume device udi s) =
     (m_devicesStates s)(udi \<mapsto> it\<lparr>isMounted :=
        (if is_StorageVolume device then
           (case as_StorageAccess device of
              Some access \<Rightarrow> access_isAccessible access
            | None \<Rightarrow> isMounted it)
         else isMounted it)\<rparr>)"
  using assms
  by (auto simp add: addStorageVolume_def Let_def devices_simps devices_addCheck devices_addRepair
      split: option.splits)

lemma devices_addStorageDrive:
  assumes "m_devicesStates s udi = Some it"
  shows "m_devicesStates (addStorageDrive device udi s) =
     (m_devicesStates s)(udi \<mapsto> it\<lparr>isRemovable :=
        (if is_StorageDrive device then
           (case as_StorageDrive device of
              Some storagedrive \<Rightarrow> drive_isRemovable storagedrive
            | None \<Rightarrow> isRemovable it)
         else isRemovable it)\<rparr>)"
  using assms
  by (auto simp add: addStorageDrive_def devices_simps split: option.splits)

lemma devices_addAncestorDrive:
  assumes "m_devicesStates s udi = Some it"
  shows "m_devicesStates (addAncestorDrive device udi s) =
     (m_devicesStates s)(udi \<mapsto> it\<lparr>isRemovable :=
        (case ancestor_StorageDrive device of
           Some drive \<Rightarrow> drive_isRemovable drive \<or> drive_isHotpluggable drive
         | None \<Rightarrow> isRemovable it)\<rparr>)"
  using assms
  by (auto simp add: addAncestorDrive_def devices_simps split: option.splits)

lemma devices_addCamera:
  assumes "m_devicesStates s udi = Some it"
  shows "m_devicesStates (addCamera device udi s) =
     (m_devicesStates s)(udi \<mapsto> it\<lparr>isRemovable :=
        (if is_Camera device \<and> as_Camera device \<noteq> None then True else isRemovable it)\<rparr>)"
  using assms
  by (auto simp add: addCamera_def devices_simps split: option.splits)

lemma devices_addPortableMediaPlayer:
  assumes "m_devicesStates s udi = Some it"
  shows "m_devicesStates (addPortableMediaPlayer device udi s) =
     (m_devicesStates s)(udi \<mapsto> it\<lparr>isRemovable :=
        (if is_PortableMediaPlayer device \<and> as_PortableMediaPlayer device \<noteq> None then True
         else isRemovable it)\<rparr>)"
  using assms
  by (auto simp add: addPortableMediaPlayer_def devices_simps split: option.splits)

lemma emitted_addStorageDrive:
  "emitted (effects (addStorageDrive device udi s)) = emitted (effects s)"
  by (simp add: addStorageDrive_def emitted_simps split: option.splits)

lemma emitted_addAncestorDrive:
  "emitted (effects (addAncestorDrive device udi s)) = emitted (effects s)"
  by (simp add: addAncestorDrive_def emitted_simps split: option.splits)

lemma emitted_addCamera:
  "emitted (effects (addCamera device udi s)) = emitted (effects s)"
  by (simp add: addCamera_def emitted_simps split: option.splits)

lemma emitted_addPortableMediaPlayer:
  "emitted (effects (addPortableMediaPlayer device udi s)) = emitted (effects s)"
  by (simp add: addPortableMediaPlayer_def emitted_simps split: option.splits)

lemma addMonitoringDevice_tracked:
  "m_devicesStates s udi \<noteq> None \<Longrightarrow> addMonitoringDevice env udi s = s"
  by (simp add: addMonitoringDevice_def)

lemma devices_addMonitoringDevice:
  assumes "m_devicesStates s udi = None"
  shows "m_devicesStates (addMonitoringDevice env udi s) =
     (m_devicesStates s)(udi \<mapsto> registeredInfo env (solid env udi))"
proof -
  define device where "device = solid env udi"
  define s1 where "s1 = emplace udi (initialDeviceInfo env) s"
  define s2 where "s2 = addOpticalDisc device s1"
  define s3 where "s3 = addStorageVolume device udi s2"
  define s4 where "s4 = addStorageDrive device udi s3"
  define s5 where "s5 = addAncestorDrive device udi s4"
  define s6 where "s6 = addCamera device udi s5"
  define s7 where "s7 = addPortableMediaPlayer device udi s6"
  define i0 where "i0 = initialDeviceInfo env"
  define i3 where "i3 = i0\<lparr>isMounted :=
        (if is_StorageVolume device then
           (case as_StorageAccess device of
              Some access \<Rightarrow> access_isAccessible access
            | None \<Rightarrow> isMounted i0)
         else isMounted i0)\<rparr>"
  define i4 where "i4 = i3\<lparr>isRemovable :=
        (if is_StorageDrive device then
           (case as_StorageDrive device of
              Some storagedrive \<Rightarrow> drive_isRemovable storagedrive
            | None \<Rightarrow> isRemovable i3)
         else isRemovable i3)\<rparr>"
  define i5 where "i5 = i4\<lparr>isRemovable :=
        (case ancestor_StorageDrive device of
           Some drive \<Rightarrow> drive_isRemovable drive \<or> drive_isHotpluggable drive
         | None \<Rightarrow> isRemovable i4)\<rparr>"
  define i6 where "i6 = i5\<lparr>isRemovable :=
        (if is_Camera device \<and> as_Camera device \<noteq> None then True else isRemovable i5)\<rparr>"
  define i7 where "i7 = i6\<lparr>isRemovable :=
        (if is_PortableMediaPlayer device \<and> as_PortableMediaPlayer device \<noteq> None then True
         else isRemovable i6)\<rparr>"
  have m1: "m_devicesStates s1 = (m_devicesStates s)(udi \<mapsto> i0)"
    by (simp add: s1_def i0_def devices_emplace)
  have m2: "m_devicesStates s2 = (m_devicesStates s)(udi \<mapsto> i0)"
    by (simp add: s2_def devices_addOpticalDisc m1)
  have m3: "m_devicesStates s3 = (m_devicesStates s)(udi \<mapsto> i3)"
    unfolding s3_def i3_def
    by (subst devices_addStorageVolume [where it = i0]) (simp_all add: m2)
  have m4: "m_devicesStates s4 = (m_devicesStates s)(udi \<mapsto> i4)"
    unfolding s4_def i4_def
    by (subst devices_addStorageDrive [where it = i3]) (simp_all add: m3)
  have m5: "m_devicesStates s5 = (m_devicesStates s)(udi \<mapsto> i5)"
    unfolding s5_def i5_def
    by (subst devices_addAncestorDrive [where it = i4]) (simp_all add: m4)
  have m6: "m_devicesStates s6 = (m_devicesStates s)(udi \<mapsto> i6)"
    unfolding s6_def i6_def
    by (subst devices_addCamera [where it = i5]) (simp_all add: m5)
  have m7: "m_devicesStates s7 = (m_devicesStates s)(udi \<mapsto> i7)"
    unfolding s7_def i7_def
    by (subst devices_addPortableMediaPlayer [where it = i6]) (simp_all add: m6)
  have i7: "i7 = registeredInfo env device"
    by (auto simp add: i7_def i6_def i5_def i4_def i3_def i0_def registeredInfo_def
        initialDeviceInfo_def probedRemovable_def probedMounted_def split: option.splits)
  have "addMonitoringDevice env udi s = stateChanged udi s7"
    using assms
    by (simp add: addMonitoringDevice_def Let_def s7_def s6_def s5_def s4_def s3_def s2_def s1_def
        device_def)
  then show ?thesis
    by (simp add: devices_stateChanged m7 i7 device_def)
qed

lemma emitted_addMonitoringDevice:
  assumes "m_devicesStates s udi = None"
  shows "emitted (effects (addMonitoringDevice env udi s)) = emitted (effects s) @ [udi]"
  using assms
  by (simp add: addMonitoringDevice_def Let_def emitted_simps emitted_addOpticalDisc
      emitted_addStorageVolume emitted_addStorageDrive emitted_addAncestorDrive emitted_addCamera
      emitted_addPortableMediaPlayer)

lemma devices_removeConnections:
  "m_devicesStates (removeConnections device s) = m_devicesStates s"
  by (simp add: removeConnections_def devices_simps split: option.splits)

lemma emitted_removeConnections:
  "emitted (effects (removeConnections device s)) = emitted (effects s)"
  by (simp add: removeConnections_def emitted_simps split: option.splits)

lemma removeMonitoringDevice_untracked:
  "m_devicesStates s udi = None \<Longrightarrow> removeMonitoringDevice env udi s = s"
  by (simp add: removeMonitoringDevice_def)

lemma devices_removeMonitoringDevice:
  "m_devicesStates (removeMonitoringDevice env udi s) = (m_devicesStates s)(udi := None)"
  by (auto simp add: removeMonitoringDevice_def Let_def devices_simps devices_removeConnections)

lemma emitted_removeMonitoringDevice:
  "m_devicesStates s udi \<noteq> None \<Longrightarrow>
   emitted (effects (removeMonitoringDevice env udi s)) = emitted (effects s) @ [udi]"
  by (simp add: removeMonitoringDevice_def Let_def emitted_simps emitted_removeConnections)

lemma devices_setMountingState:
  "m_devicesStates s udi = Some it \<Longrightarrow>
   m_devicesStates (setMountingState udi s) =
     (m_devicesStates s)(udi \<mapsto> it\<lparr>isBusy := True, state := Mounting\<rparr>)"
  by (simp add: setMountingState_def devices_simps)

lemma devices_setUnmountingState:
  "m_devicesStates s udi = Some it \<Longrightarrow>
   m_devicesStates (setUnmountingState udi s) =
     (m_devicesStates s)(udi \<mapsto> it\<lparr>isBusy := True, state := Unmounting\<rparr>)"
  by (simp add: setUnmountingState_def devices_simps)

lemma devices_setCheckingState:
  "m_devicesStates s udi = Some it \<Longrightarrow>
   m_devicesStates (setCheckingState udi s) =
     (m_devicesStates s)(udi \<mapsto> it\<lparr>isBusy := True, state := Checking\<rparr>)"
  by (simp add: setCheckingState_def devices_simps)

lemma devices_setRepairingState:
  "m_devicesStates s udi = Some it \<Longrightarrow>
   m_devicesStates (setRepairingState udi s) =
     (m_devicesStates s)(udi \<mapsto> it\<lparr>isBusy := True, state := Repairing\<rparr>)"
  by (simp add: setRepairingState_def devices_simps)

lemma requested_untracked:
  assumes "m_devicesStates s udi = None"
  shows "setMountingState udi s = s" and "setUnmountingState udi s = s"
    and "setCheckingState udi s = s" and "setRepairingState udi s = s"
    and "setAccessibilityState isAccessible udi s = s"
  using assms
  by (simp_all add: setMountingState_def setUnmountingState_def setCheckingState_def
      setRepairingState_def setAccessibilityState_def)

lemma emitted_requested:
  assumes "m_devicesStates s udi \<noteq> None"
  shows "emitted (effects (setMountingState udi s)) = emitted (effects s) @ [udi]"
    and "emitted (effects (setUnmountingState udi s)) = emitted (effects s) @ [udi]"
    and "emitted (effects (setCheckingState udi s)) = emitted (effects s) @ [udi]"
    and "emitted (effects (setRepairingState udi s)) = emitted (effects s) @ [udi]"
  using assms
  by (simp_all add: setMountingState_def setUnmountingState_def setCheckingState_def
      setRepairingState_def emitted_simps)

lemma setAccessibilityState_same:
  "m_devicesStates s udi = Some it \<Longrightarrow> isMounted it = isAccessible \<Longrightarrow>
   setAccessibilityState isAccessible udi s = s"
  by (simp add: setAccessibilityState_def)

lemma devices_setAccessibilityState:
  "m_devicesStates s udi = Some it \<Longrightarrow> isMounted it \<noteq> isAccessible \<Longrightarrow>
   m_devicesStates (setAccessibilityState isAccessible udi s) =
     (m_devicesStates s)(udi \<mapsto> it\<lparr>isMounted := isAccessible\<rparr>)"
  by (simp add: setAccessibilityState_def devices_simps)

lemma emitted_setAccessibilityState:
  "m_devicesStates s udi = Some it \<Longrightarrow> isMounted it \<noteq> isAccessible \<Longrightarrow>
   emitted (effects (setAccessibilityState isAccessible udi s)) = emitted (effects s) @ [udi]"
  by (simp add: setAccessibilityState_def emitted_simps)

lemma setIdleState_invalid:
  "\<not> isValid (solid env udi) \<Longrightarrow> setIdleState env result info udi s = Inr s"
  by (simp add: setIdleState_def Let_def)

lemma setIdleState_untracked:
  "m_devicesStates s udi = None \<Longrightarrow> setIdleState env result info udi s = Inr s"
  by (simp add: setIdleState_def Let_def)

lemma setIdleState_Inr:
  assumes "setIdleState env result info udi s = Inr s'"
  shows "s' = s \<or>
    (\<exists>it it'. m_devicesStates s udi = Some it \<and> isValid (solid env udi) \<and>
       operationDone (solid env udi) result info
         (it\<lparr>isBusy := False, operationResult := result, operationInfo := info\<rparr>) = Inr it' \<and>
       m_devicesStates s' = (m_devicesStates s)(udi \<mapsto> it') \<and>
       emitted (effects s') = emitted (effects s) @ [udi])"
  using assms
  by (auto simp add: setIdleState_def Let_def devices_simps emitted_simps
      split: if_splits option.splits sum.splits)

lemma setIdleState_tracked:
  assumes "isValid (solid env udi)" and "m_devicesStates s udi = Some it"
    and "operationDone (solid env udi) result info
           (it\<lparr>isBusy := False, operationResult := result, operationInfo := info\<rparr>) = Inr it'"
  shows "\<exists>s'. setIdleState env result info udi s = Inr s' \<and>
      m_devicesStates s' = (m_devicesStates s)(udi \<mapsto> it') \<and>
      emitted (effects s') = emitted (effects s) @ [udi]"
  using assms
  by (simp add: setIdleState_def Let_def devices_simps emitted_simps)

lemma operationDone_Inr:
  assumes "operationDone device result info it = Inr it'"
  shows "isBusy it' = isBusy it \<and> isRemovable it' = isRemovable it \<and>
    deviceTimeStamp it' = deviceTimeStamp it \<and>
    state it' \<in> {CheckDone, RepairDone, MountDone, UnmountDone, Idle}"
  using assms
  by (auto simp add: operationDone_def split: if_splits option.splits sum.splits)

lemma allConsistent_update:
  "allConsistent s \<Longrightarrow> m_devicesStates s' = (m_devicesStates s)(udi \<mapsto> it) \<Longrightarrow> consistent it \<Longrightarrow>
   allConsistent s'"
  by (simp add: allConsistent_def)

lemma allConsistent_new: "allConsistent DevicesStateMonitor_new"
  by (simp add: allConsistent_def DevicesStateMonitor_new_def)

lemma consistent_registeredInfo: "consistent (registeredInfo env device)"
  by (simp add: consistent_def registeredInfo_def initialDeviceInfo_def)

lemma allConsistent_addMonitoringDevice:
  assumes "allConsistent s"
  shows "allConsistent (addMonitoringDevice env udi s)"
proof (cases "m_devicesStates s udi")
  case None
  then show ?thesis
    using assms consistent_registeredInfo
    by (blast intro: allConsistent_update devices_addMonitoringDevice)
next
  case (Some it)
  then show ?thesis
    using assms by (simp add: addMonitoringDevice_tracked)
qed

lemma allConsistent_removeMonitoringDevice:
  assumes "allConsistent s"
  shows "allConsistent (removeMonitoringDevice env udi s)"
  using assms
  by (simp add: allConsistent_def devices_removeMonitoringDevice)

lemma allConsistent_requested:
  assumes "allConsistent s"
  shows "allConsistent (setMountingState udi s)" and "allConsistent (setUnmountingState udi s)"
    and "allConsistent (setCheckingState udi s)" and "allConsistent (setRepairingState udi s)"
proof -
  show "allConsistent (setMountingState udi s)"
  proof (cases "m_devicesStates s udi")
    case None
    then show ?thesis using assms by (simp add: requested_untracked)
  next
    case (Some it)
    show ?thesis
      by (rule allConsistent_update [OF assms devices_setMountingState [OF Some]])
        (simp add: consistent_def)
  qed
  show "allConsistent (setUnmountingState udi s)"
  proof (cases "m_devicesStates s udi")
    case None
    then show ?thesis using assms by (simp add: requested_untracked)
  next
    case (Some it)
    show ?thesis
      by (rule allConsistent_update [OF assms devices_setUnmountingState [OF Some]])
        (simp add: consistent_def)
  qed
  show "allConsistent (setCheckingState udi s)"
  proof (cases "m_devicesStates s udi")
    case None
    then show ?thesis using assms by (simp add: requested_untracked)
  next
    case (Some it)
    show ?thesis
      by (rule allConsistent_update [OF assms devices_setCheckingState [OF Some]])
        (simp add: consistent_def)
  qed
  show "allConsistent (setRepairingState udi s)"
  proof (cases "m_devicesStates s udi")
    case None
    then show ?thesis using assms by (simp add: requested_untracked)
  next
    case (Some it)
    show ?thesis
      by (rule allConsistent_update [OF assms devices_setRepairingState [OF Some]])
        (simp add: consistent_def)
  qed
qed

lemma allConsistent_setAccessibilityState:
  assumes "allConsistent s"
  shows "allConsistent (setAccessibilityState isAccessible udi s)"
proof (cases "m_devicesStates s udi")
  case None
  then show ?thesis using assms by (simp add: requested_untracked)
next
  case (Some it)
  show ?thesis
  proof (cases "isMounted it = isAccessible")
    case True
    then show ?thesis using assms Some by (simp add: setAccessibilityState_same)
  next
    case False
    have "consistent it" using assms Some by (simp add: allConsistent_def)
    then have "consistent (it\<lparr>isMounted := isAccessible\<rparr>)" by (simp add: consistent_def)
    then show ?thesis
      by (rule allConsistent_update [OF assms devices_setAccessibilityState [OF Some False]])
  qed
qed

lemma allConsistent_setIdleState:
  assumes "allConsistent s" and "setIdleState env result info udi s = Inr s'"
  shows "allConsistent s'"
proof -
  from setIdleState_Inr [OF assms(2)] show ?thesis
  proof
    assume "s' = s"
    then show ?thesis using assms(1) by simp
  next
    assume "\<exists>it it'. m_devicesStates s udi = Some it \<and> isValid (solid env udi) \<and>
       operationDone (solid env udi) result info
         (it\<lparr>isBusy := False, operationResult := result, operationInfo := info\<rparr>) = Inr it' \<and>
       m_devicesStates s' = (m_devicesStates s)(udi \<mapsto> it') \<and>
       emitted (effects s') = emitted (effects s) @ [udi]"
    then obtain it it' where
      d: "operationDone (solid env udi) result info
         (it\<lparr>isBusy := False, operationResult := result, operationInfo := info\<rparr>) = Inr it'"
      and m: "m_devicesStates s' = (m_devicesStates s)(udi \<mapsto> it')"
      by blast
    from operationDone_Inr [OF d] have "consistent it'"
      by (auto simp add: consistent_def)
    then show ?thesis
      by (rule allConsistent_update [OF assms(1) m])
  qed
qed

lemma allConsistent_exec:
  assumes "allConsistent s" and "exec env c s = Inr s'"
  shows "allConsistent s'"
  using assms
  by (cases c)
    (auto simp add: allConsistent_addMonitoringDevice allConsistent_removeMonitoringDevice
      allConsistent_requested allConsistent_setAccessibilityState
      intro: allConsistent_setIdleState)

lemma allConsistent_run:
  "allConsistent s \<Longrightarrow> run cs s = Inr s' \<Longrightarrow> allConsistent s'"
proof (induction cs arbitrary: s)
  case Nil
  then show ?case by simp
next
  case (Cons a cs)
  obtain env c where a: "a = (env, c)" by (cases a)
  from Cons.prems(2) obtain s1 where e: "exec env c s = Inr s1" and r: "run cs s1 = Inr s'"
    by (auto simp add: a split: sum.splits)
  from allConsistent_exec [OF Cons.prems(1) e] have "allConsistent s1" .
  then show ?case using r by (rule Cons.IH)
qed

lemmas monitor_defs =
  DevicesStateMonitor_new_def emplace_def erase_def assign_def connect_def disconnect_def
  stateChanged_def initialDeviceInfo_def addOpticalDisc_def addCheck_def addRepair_def
  addStorageVolume_def addStorageDrive_def addAncestorDrive_def addCamera_def
  addPortableMediaPlayer_def addMonitoringDevice_def removeConnections_def
  removeMonitoringDevice_def setMountingState_def setUnmountingState_def setCheckingState_def
  setRepairingState_def setAccessibilityState_def checkNeedRepair_def operationDone_def
  setIdleState_def

lemmas query_defs =
  isBusy_udi_def isRemovable_udi_def isMounted_udi_def isChecked_udi_def needRepair_udi_def
  getDeviceTimeStamp_def getState_def getOperationResult_def getOperationInfo_def

lemmas example_defs =
  world_def bare_device_def usb_volume_def volume_without_access_def hotplug_drive_def
  removable_drive_on_fixed_drive_def

lemma checking_usb_volume:
  "m_devicesStates (setCheckingState ''udi-1''
      (addMonitoringDevice (world (usb_volume True) 1000) ''udi-1'' DevicesStateMonitor_new))
      ''udi-1'' =
   Some ((registeredInfo (world (usb_volume True) 1000) (usb_volume True))
      \<lparr>isBusy := True, state := Checking\<rparr>)"
proof -
  have new: "m_devicesStates DevicesStateMonitor_new ''udi-1'' = None"
    by (simp add: DevicesStateMonitor_new_def)
  have "m_devicesStates (addMonitoringDevice (world (usb_volume True) 1000) ''udi-1''
      DevicesStateMonitor_new) ''udi-1'' =
    Some (registeredInfo (world (usb_volume True) 1000) (usb_volume True))"
    by (simp add: devices_addMonitoringDevice [OF new] world_def)
  from devices_setCheckingState [OF this] show ?thesis
    by simp
qed

lemma exec_same_or_emitted:
  assumes "exec env c s = Inr s'"
  shows "s' = s \<or> emitted (effects s') = emitted (effects s) @ [call_udi c]"
proof (cases c)
  case (Call_addMonitoringDevice udi)
  then show ?thesis
    using assms
    by (cases "m_devicesStates s udi")
      (auto simp add: emitted_addMonitoringDevice addMonitoringDevice_tracked)
next
  case (Call_removeMonitoringDevice udi)
  then show ?thesis
    using assms
    by (cases "m_devicesStates s udi")
      (auto simp add: emitted_removeMonitoringDevice removeMonitoringDevice_untracked)
next
  case (Call_setMountingState udi)
  then show ?thesis
    using assms
    by (cases "m_devicesStates s udi") (auto simp add: emitted_requested requested_untracked)
next
  case (Call_setUnmountingState udi)
  then show ?thesis
    using assms
    by (cases "m_devicesStates s udi") (auto simp add: emitted_requested requested_untracked)
next
  case (Call_setCheckingState udi)
  then show ?thesis
    using assms
    by (cases "m_devicesStates s udi") (auto simp add: emitted_requested requested_untracked)
next
  case (Call_setRepairingState udi)
  then show ?thesis
    using assms
    by (cases "m_devicesStates s udi") (auto simp add: emitted_requested requested_untracked)
next
  case (Call_setAccessibilityState isAccessible udi)
  show ?thesis
  proof (cases "m_devicesStates s udi")
    case None
    then show ?thesis
      using assms Call_setAccessibilityState by (auto simp add: requested_untracked)
  next
    case (Some it)
    then show ?thesis
      using assms Call_setAccessibilityState
      by (cases "isMounted it = isAccessible")
        (auto simp add: setAccessibilityState_same emitted_setAccessibilityState)
  qed
next
  case (Call_setIdleState result info udi)
  then have "setIdleState env result info udi s = Inr s'"
    using assms by simp
  from setIdleState_Inr [OF this] show ?thesis
    using Call_setIdleState by auto
qed

lemma mounted_usb_volume:
  "m_devicesStates
     (addMonitoringDevice (world (usb_volume True) 1000) ''udi-1'' DevicesStateMonitor_new)
     ''udi-1'' =
   Some (registeredInfo (world (usb_volume True) 1000) (usb_volume True))"
proof -
  have "m_devicesStates DevicesStateMonitor_new ''udi-1'' = None"
    by (simp add: DevicesStateMonitor_new_def)
  from devices_addMonitoringDevice [OF this] show ?thesis
    by (simp add: world_def)
qed

lemma exec_keeps:
  assumes "exec env c s = Inr s'"
    and "m_devicesStates s udi = Some it"
    and "m_devicesStates s' udi = Some it'"
  shows "isRemovable it' = isRemovable it \<and> deviceTimeStamp it' = deviceTimeStamp it"
proof (cases c)
  case (Call_addMonitoringDevice u)
  show ?thesis
  proof (cases "m_devicesStates s u")
    case None
    then have "u \<noteq> udi" using assms(2) by auto
    then show ?thesis
      using assms Call_addMonitoringDevice devices_addMonitoringDevice [OF None, of env]
      by auto
  next
    case (Some a)
    then show ?thesis
      using assms Call_addMonitoringDevice by (auto simp add: addMonitoringDevice_tracked)
  qed
next
  case (Call_removeMonitoringDevice u)
  then show ?thesis
    using assms by (auto simp add: devices_removeMonitoringDevice split: if_splits)
next
  case (Call_setMountingState u)
  then show ?thesis
    using assms
    by (cases "m_devicesStates s u")
      (auto simp add: requested_untracked devices_setMountingState split: if_splits)
next
  case (Call_setUnmountingState u)
  then show ?thesis
    using assms
    by (cases "m_devicesStates s u")
      (auto simp add: requested_untracked devices_setUnmountingState split: if_splits)
next
  case (Call_setCheckingState u)
  then show ?thesis
    using assms
    by (cases "m_devicesStates s u")
      (auto simp add: requested_untracked devices_setCheckingState split: if_splits)
next
  case (Call_setRepairingState u)
  then show ?thesis
    using assms
    by (cases "m_devicesStates s u")
      (auto simp add: requested_untracked devices_setRepairingState split: if_splits)
next
  case (Call_setAccessibilityState isAccessible u)
  show ?thesis
  proof (cases "m_devicesStates s u")
    case None
    then show ?thesis
      using assms Call_setAccessibilityState by (auto simp add: requested_untracked)
  next
    case (Some a)
    then show ?thesis
      using assms Call_setAccessibilityState
      by (cases "isMounted a = isAccessible")
        (auto simp add: setAccessibilityState_same devices_setAccessibilityState
          split: if_splits)
  qed
next
  case (Call_setIdleState result info u)
  then have "setIdleState env result info u s = Inr s'"
    using assms(1) by simp
  from setIdleState_Inr [OF this] show ?thesis
  proof
    assume "s' = s"
    then show ?thesis using assms by simp
  next
    assume "\<exists>a a'. m_devicesStates s u = Some a \<and> isValid (solid env u) \<and>
       operationDone (solid env u) result info
         (a\<lparr>isBusy := False, operationResult := result, operationInfo := info\<rparr>) = Inr a' \<and>
       m_devicesStates s' = (m_devicesStates s)(u \<mapsto> a') \<and>
       emitted (effects s') = emitted (effects s) @ [u]"
    then obtain a a' where a: "m_devicesStates s u = Some a"
      and d: "operationDone (solid env u) result info
         (a\<lparr>isBusy := False, operationResult := result, operationInfo := info\<rparr>) = Inr a'"
      and m: "m_devicesStates s' = (m_devicesStates s)(u \<mapsto> a')"
      by blast
    from operationDone_Inr [OF d] show ?thesis
      using assms(2,3) a m by (auto split: if_splits)
  qed
qed


















subsection \<open>Busy records\<close>

text \<open>
  Claim C1. After any sequence of calls on a new monitor that runs to its end, and so after
  each call of it, \<^verbatim>\<open>isBusy(udi)\<close> is true exactly when \<^verbatim>\<open>getState(udi)\<close> is one of
  Mounting, Unmounting, Checking and Repairing, for every udi, monitored or not.
\<close>

theorem busy_iff_operation_in_flight:
  assumes "run cs DevicesStateMonitor_new = Inr s"
  shows "isBusy_udi s udi = (getState s udi \<in> {Mounting, Unmounting, Checking, Repairing})"
proof -
  have "allConsistent s"
    using allConsistent_new assms by (rule allConsistent_run)
  then show ?thesis
    by (cases "m_devicesStates s udi")
      (simp_all add: isBusy_udi_def getState_def allConsistent_def consistent_def)
qed

theorem busy_iff_operation_in_flight_witness:
  "run
     [(world (usb_volume False) 1000, Call_addMonitoringDevice ''udi-1''),
      (world (usb_volume False) 2000, Call_setCheckingState ''udi-1'')]
     DevicesStateMonitor_new =
   Inr (setCheckingState ''udi-1''
     (addMonitoringDevice (world (usb_volume False) 1000) ''udi-1'' DevicesStateMonitor_new)) \<and>
   isBusy_udi (setCheckingState ''udi-1''
     (addMonitoringDevice (world (usb_volume False) 1000) ''udi-1'' DevicesStateMonitor_new))
     ''udi-1'' =
   (getState (setCheckingState ''udi-1''
     (addMonitoringDevice (world (usb_volume False) 1000) ''udi-1'' DevicesStateMonitor_new))
     ''udi-1'' \<in> {Mounting, Unmounting, Checking, Repairing}) \<and>
   getState (setCheckingState ''udi-1''
     (addMonitoringDevice (world (usb_volume False) 1000) ''udi-1'' DevicesStateMonitor_new))
     ''udi-1'' = Checking"
proof -
  have r: "run
     [(world (usb_volume False) 1000, Call_addMonitoringDevice ''udi-1''),
      (world (usb_volume False) 2000, Call_setCheckingState ''udi-1'')]
     DevicesStateMonitor_new =
   Inr (setCheckingState ''udi-1''
     (addMonitoringDevice (world (usb_volume False) 1000) ''udi-1'' DevicesStateMonitor_new))"
    by simp
  have g: "getState (setCheckingState ''udi-1''
     (addMonitoringDevice (world (usb_volume False) 1000) ''udi-1'' DevicesStateMonitor_new))
     ''udi-1'' = Checking"
    by (simp add: monitor_defs example_defs getState_def)
  show ?thesis
    by (rule conjI [OF r conjI [OF busy_iff_operation_in_flight [OF r] g]])
qed

subsection \<open>The end of a check\<close>

text \<open>
  Claim C2, as the code has it. For a device that is monitored in state Checking and is
  still valid when the operation ends (line 283 returns for a device that is not),
  \<^verbatim>\<open>setIdleState\<close> with any result and information returns, and leaves the state
  CheckDone, \<^verbatim>\<open>isBusy\<close> false,
  \<^verbatim>\<open>isChecked\<close> true, and \<^verbatim>\<open>needRepair\<close> equal to
  \<^verbatim>\<open>!operationInfo.toBool() && access->canRepair()\<close> when the result is \<^verbatim>\<open>NoError\<close> and
  false otherwise. The storage access has to be there only where the code asks it, that is
  when the result is \<^verbatim>\<open>NoError\<close> and the information is false.
\<close>

theorem check_done:
  assumes "isValid (solid env udi)"
    and "m_devicesStates s udi = Some it"
    and "state it = Checking"
    and "result = NoError \<and> \<not> toBool info \<longrightarrow> as_StorageAccess (solid env udi) = Some access"
  shows "\<exists>s'. setIdleState env result info udi s = Inr s' \<and>
    getState s' udi = CheckDone \<and>
    isBusy_udi s' udi = False \<and>
    isChecked_udi s' udi = True \<and>
    needRepair_udi s' udi =
      (if result = NoError then \<not> toBool info \<and> access_canRepair access else False)"
proof -
  define it' where "it' =
    it\<lparr>isBusy := False, operationResult := result, operationInfo := info, isChecked := True,
       needRepair := (if result = NoError then \<not> toBool info \<and> access_canRepair access
                      else False),
       state := CheckDone\<rparr>"
  have "checkNeedRepair (solid env udi) result info =
      Inr (if result = NoError then \<not> toBool info \<and> access_canRepair access else False)"
    using assms(4) by (simp add: checkNeedRepair_def)
  then have "operationDone (solid env udi) result info
      (it\<lparr>isBusy := False, operationResult := result, operationInfo := info\<rparr>) = Inr it'"
    using assms(3) by (simp add: operationDone_def it'_def)
  from setIdleState_tracked [OF assms(1,2) this]
  obtain s' where "setIdleState env result info udi s = Inr s'"
    and "m_devicesStates s' = (m_devicesStates s)(udi \<mapsto> it')"
    by blast
  then show ?thesis
    by (simp add: getState_def isBusy_udi_def isChecked_udi_def needRepair_udi_def it'_def)
qed

text \<open>
  The claim as it was written fails, since it speaks of every monitored device in state
  Checking: when the device is no longer valid, the end of the check is ignored, and the
  record stays Checking and busy, with \<^verbatim>\<open>isChecked\<close> false.
\<close>

theorem check_done_ignored_for_invalid_device:
  "isValid (solid (world (bare_device False) 3000) ''udi-1'') = False \<and>
   setIdleState (world (bare_device False) 3000) NoError (QVariant_Bool True) ''udi-1''
     (setCheckingState ''udi-1''
       (addMonitoringDevice (world (usb_volume True) 1000) ''udi-1'' DevicesStateMonitor_new)) =
   Inr (setCheckingState ''udi-1''
       (addMonitoringDevice (world (usb_volume True) 1000) ''udi-1'' DevicesStateMonitor_new)) \<and>
   getState (setCheckingState ''udi-1''
       (addMonitoringDevice (world (usb_volume True) 1000) ''udi-1'' DevicesStateMonitor_new))
     ''udi-1'' = Checking \<and>
   isBusy_udi (setCheckingState ''udi-1''
       (addMonitoringDevice (world (usb_volume True) 1000) ''udi-1'' DevicesStateMonitor_new))
     ''udi-1'' = True \<and>
   isChecked_udi (setCheckingState ''udi-1''
       (addMonitoringDevice (world (usb_volume True) 1000) ''udi-1'' DevicesStateMonitor_new))
     ''udi-1'' = False"
proof -
  have invalid: "\<not> isValid (solid (world (bare_device False) 3000) ''udi-1'')"
    by (simp add: example_defs)
  have fields: "isBusy ((registeredInfo (world (usb_volume True) 1000) (usb_volume True))
        \<lparr>isBusy := True, state := Checking\<rparr>) = True"
    "isChecked ((registeredInfo (world (usb_volume True) 1000) (usb_volume True))
        \<lparr>isBusy := True, state := Checking\<rparr>) = False"
    by (simp_all add: registeredInfo_def initialDeviceInfo_def)
  show ?thesis
    using invalid fields
    by (simp add: setIdleState_invalid getState_def isBusy_udi_def isChecked_udi_def
        checking_usb_volume)
qed

theorem check_done_witness:
  "(\<exists>s'. setIdleState (world (usb_volume True) 3000) NoError (QVariant_Bool True) ''udi-1''
       (setCheckingState ''udi-1''
         (addMonitoringDevice (world (usb_volume True) 1000) ''udi-1'' DevicesStateMonitor_new)) =
       Inr s' \<and>
     getState s' ''udi-1'' = CheckDone \<and>
     isBusy_udi s' ''udi-1'' = False \<and>
     isChecked_udi s' ''udi-1'' = True \<and>
     needRepair_udi s' ''udi-1'' = False) \<and>
   (\<exists>s'. setIdleState (world (usb_volume True) 3000) NoError (QVariant_Bool False) ''udi-1''
       (setCheckingState ''udi-1''
         (addMonitoringDevice (world (usb_volume True) 1000) ''udi-1'' DevicesStateMonitor_new)) =
       Inr s' \<and>
     getState s' ''udi-1'' = CheckDone \<and>
     isBusy_udi s' ''udi-1'' = False \<and>
     isChecked_udi s' ''udi-1'' = True \<and>
     needRepair_udi s' ''udi-1'' = True) \<and>
   (\<exists>s'. setIdleState (world (usb_volume True) 3000) OperationFailed QVariant_Invalid ''udi-1''
       (setCheckingState ''udi-1''
         (addMonitoringDevice (world (usb_volume True) 1000) ''udi-1'' DevicesStateMonitor_new)) =
       Inr s' \<and>
     getState s' ''udi-1'' = CheckDone \<and>
     isBusy_udi s' ''udi-1'' = False \<and>
     isChecked_udi s' ''udi-1'' = True \<and>
     needRepair_udi s' ''udi-1'' = False)"
proof -
  have valid: "isValid (solid (world (usb_volume True) 3000) ''udi-1'')"
    by (simp add: example_defs)
  have chk: "state ((registeredInfo (world (usb_volume True) 1000) (usb_volume True))
      \<lparr>isBusy := True, state := Checking\<rparr>) = Checking"
    by simp
  have access: "result = NoError \<and> \<not> toBool info \<longrightarrow>
    as_StorageAccess (solid (world (usb_volume True) 3000) ''udi-1'') =
    Some \<lparr>access_object = 7, access_canCheck = True, access_canRepair = True,
           access_isAccessible = True\<rparr>" for result info
    by (simp add: example_defs)
  show ?thesis
    using check_done [OF valid checking_usb_volume chk access, of NoError "QVariant_Bool True"]
      check_done [OF valid checking_usb_volume chk access, of NoError "QVariant_Bool False"]
      check_done [OF valid checking_usb_volume chk access, of OperationFailed QVariant_Invalid]
    by simp
qed

subsection \<open>Registering and unregistering\<close>

text \<open>
  Claim C3. After \<^verbatim>\<open>addMonitoringDevice\<close> and \<^verbatim>\<open>removeMonitoringDevice\<close> of a udi,
  every query on it returns its default, and the hash has for it what the hash of a new
  monitor has: nothing. Every query on a udi that is not monitored returns its default.
\<close>

theorem register_unregister_defaults:
  "isBusy_udi (removeMonitoringDevice env' udi (addMonitoringDevice env udi s)) udi = False \<and>
   isRemovable_udi (removeMonitoringDevice env' udi (addMonitoringDevice env udi s)) udi = False \<and>
   isMounted_udi (removeMonitoringDevice env' udi (addMonitoringDevice env udi s)) udi = False \<and>
   isChecked_udi (removeMonitoringDevice env' udi (addMonitoringDevice env udi s)) udi = False \<and>
   needRepair_udi (removeMonitoringDevice env' udi (addMonitoringDevice env udi s)) udi = False \<and>
   getState (removeMonitoringDevice env' udi (addMonitoringDevice env udi s)) udi = NotPresent \<and>
   getOperationResult (removeMonitoringDevice env' udi (addMonitoringDevice env udi s)) udi =
     NoError \<and>
   getOperationInfo (removeMonitoringDevice env' udi (addMonitoringDevice env udi s)) udi =
     QVariant_Invalid \<and>
   getDeviceTimeStamp (removeMonitoringDevice env' udi (addMonitoringDevice env udi s)) udi =
     NullDateTime \<and>
   m_devicesStates (removeMonitoringDevice env' udi (addMonitoringDevice env udi s)) udi =
     m_devicesStates DevicesStateMonitor_new udi \<and>
   (m_devicesStates s udi = None \<longrightarrow>
      isBusy_udi s udi = False \<and>
      isRemovable_udi s udi = False \<and>
      isMounted_udi s udi = False \<and>
      isChecked_udi s udi = False \<and>
      needRepair_udi s udi = False \<and>
      getState s udi = NotPresent \<and>
      getOperationResult s udi = NoError \<and>
      getOperationInfo s udi = QVariant_Invalid \<and>
      getDeviceTimeStamp s udi = NullDateTime)"
  by (simp add: isBusy_udi_def isRemovable_udi_def isMounted_udi_def isChecked_udi_def
      needRepair_udi_def getState_def getOperationResult_def getOperationInfo_def
      getDeviceTimeStamp_def devices_removeMonitoringDevice DevicesStateMonitor_new_def)

theorem register_unregister_defaults_witness:
  "getState (removeMonitoringDevice (world (bare_device False) 2000) ''udi-1''
     (addMonitoringDevice (world (usb_volume True) 1000) ''udi-1'' DevicesStateMonitor_new))
     ''udi-1'' = NotPresent \<and>
   isMounted_udi (removeMonitoringDevice (world (bare_device False) 2000) ''udi-1''
     (addMonitoringDevice (world (usb_volume True) 1000) ''udi-1'' DevicesStateMonitor_new))
     ''udi-1'' = False \<and>
   m_devicesStates DevicesStateMonitor_new ''udi-1'' = None \<and>
   isBusy_udi DevicesStateMonitor_new ''udi-1'' = False \<and>
   getState DevicesStateMonitor_new ''udi-1'' = NotPresent \<and>
   getDeviceTimeStamp DevicesStateMonitor_new ''udi-1'' = NullDateTime"
  using register_unregister_defaults
    [of "world (bare_device False) 2000" "''udi-1''" "world (usb_volume True) 1000"
      DevicesStateMonitor_new]
  by (simp add: DevicesStateMonitor_new_def)

subsection \<open>One notification for each change\<close>

text \<open>
  Claim C4. A call that returns and has changed \<^verbatim>\<open>m_devicesStates\<close> has emitted
  \<^verbatim>\<open>stateChanged\<close> exactly once, with the udi of the call; so have the registration of a
  new udi and the removal of a monitored one. \<^verbatim>\<open>setAccessibilityState\<close> with a value that
  differs from \<^verbatim>\<open>isMounted\<close> stores the value and emits once; with the value \<^verbatim>\<open>isMounted\<close>
  has already, it returns the monitor as it was.
\<close>

theorem one_notification_per_change:
  "(exec env c s = Inr s' \<and> m_devicesStates s' \<noteq> m_devicesStates s \<longrightarrow>
      emitted (effects s') = emitted (effects s) @ [call_udi c]) \<and>
   (m_devicesStates s udi = None \<longrightarrow>
      emitted (effects (addMonitoringDevice env udi s)) = emitted (effects s) @ [udi]) \<and>
   (m_devicesStates s udi \<noteq> None \<longrightarrow>
      emitted (effects (removeMonitoringDevice env udi s)) = emitted (effects s) @ [udi]) \<and>
   (m_devicesStates s udi = Some it \<and> isMounted it \<noteq> isAccessible \<longrightarrow>
      isMounted_udi (setAccessibilityState isAccessible udi s) udi = isAccessible \<and>
      emitted (effects (setAccessibilityState isAccessible udi s)) =
        emitted (effects s) @ [udi]) \<and>
   (m_devicesStates s udi = Some it \<and> isMounted it = isAccessible \<longrightarrow>
      setAccessibilityState isAccessible udi s = s)"
proof -
  have "emitted (effects s') = emitted (effects s) @ [call_udi c]"
    if "exec env c s = Inr s'" and "m_devicesStates s' \<noteq> m_devicesStates s"
    using exec_same_or_emitted [OF that(1)] that(2) by auto
  moreover have "isMounted_udi (setAccessibilityState isAccessible udi s) udi = isAccessible"
    if "m_devicesStates s udi = Some it" and "isMounted it \<noteq> isAccessible"
    by (simp add: isMounted_udi_def devices_setAccessibilityState [OF that])
  ultimately show ?thesis
    by (simp add: emitted_addMonitoringDevice emitted_removeMonitoringDevice
        emitted_setAccessibilityState setAccessibilityState_same)
qed

theorem one_notification_per_change_witness:
  "isMounted_udi
     (addMonitoringDevice (world (usb_volume True) 1000) ''udi-1'' DevicesStateMonitor_new)
     ''udi-1'' = True \<and>
   isMounted_udi (setAccessibilityState False ''udi-1''
     (addMonitoringDevice (world (usb_volume True) 1000) ''udi-1'' DevicesStateMonitor_new))
     ''udi-1'' = False \<and>
   emitted (effects (setAccessibilityState False ''udi-1''
     (addMonitoringDevice (world (usb_volume True) 1000) ''udi-1'' DevicesStateMonitor_new))) =
   emitted (effects
     (addMonitoringDevice (world (usb_volume True) 1000) ''udi-1'' DevicesStateMonitor_new)) @
   [''udi-1''] \<and>
   setAccessibilityState True ''udi-1''
     (addMonitoringDevice (world (usb_volume True) 1000) ''udi-1'' DevicesStateMonitor_new) =
   addMonitoringDevice (world (usb_volume True) 1000) ''udi-1'' DevicesStateMonitor_new \<and>
   emitted (effects
     (addMonitoringDevice (world (usb_volume True) 1000) ''udi-1'' DevicesStateMonitor_new)) =
   [''udi-1'']"
proof -
  have m: "isMounted (registeredInfo (world (usb_volume True) 1000) (usb_volume True)) = True"
    by (simp add: registeredInfo_def probedMounted_def usb_volume_def)
  have q: "isMounted_udi
     (addMonitoringDevice (world (usb_volume True) 1000) ''udi-1'' DevicesStateMonitor_new)
     ''udi-1'' = True"
    by (simp add: isMounted_udi_def mounted_usb_volume m)
  have new: "m_devicesStates DevicesStateMonitor_new ''udi-1'' = None"
    by (simp add: DevicesStateMonitor_new_def)
  have e: "emitted (effects DevicesStateMonitor_new) = []"
    by (simp add: DevicesStateMonitor_new_def)
  show ?thesis
    using one_notification_per_change
      [of "world (usb_volume True) 2000" "Call_setAccessibilityState False ''udi-1''"
        "addMonitoringDevice (world (usb_volume True) 1000) ''udi-1'' DevicesStateMonitor_new"
        "setAccessibilityState False ''udi-1''
          (addMonitoringDevice (world (usb_volume True) 1000) ''udi-1'' DevicesStateMonitor_new)"
        "''udi-1''" "registeredInfo (world (usb_volume True) 1000) (usb_volume True)" False]
      one_notification_per_change
      [of "world (usb_volume True) 1000" "Call_addMonitoringDevice ''udi-1''"
        DevicesStateMonitor_new
        "addMonitoringDevice (world (usb_volume True) 1000) ''udi-1'' DevicesStateMonitor_new"
        "''udi-1''" "registeredInfo (world (usb_volume True) 1000) (usb_volume True)" True]
      one_notification_per_change
      [of "world (usb_volume True) 2000" "Call_setAccessibilityState True ''udi-1''"
        "addMonitoringDevice (world (usb_volume True) 1000) ''udi-1'' DevicesStateMonitor_new"
        "addMonitoringDevice (world (usb_volume True) 1000) ''udi-1'' DevicesStateMonitor_new"
        "''udi-1''" "registeredInfo (world (usb_volume True) 1000) (usb_volume True)" True]
      mounted_usb_volume m q new e
    by simp
qed

subsection \<open>Events for devices that are gone or not monitored\<close>

text \<open>
  Claim C5. \<^verbatim>\<open>setIdleState\<close> for a device that is no longer valid returns the monitor as
  it was: no record changes and nothing is emitted. For a udi that is not monitored the same
  holds for each of the six slots.
\<close>

theorem stale_and_untracked_events_are_ignored:
  "(\<not> isValid (solid env udi) \<longrightarrow> setIdleState env result info udi s = Inr s) \<and>
   (m_devicesStates s udi = None \<longrightarrow>
      setMountingState udi s = s \<and>
      setUnmountingState udi s = s \<and>
      setCheckingState udi s = s \<and>
      setRepairingState udi s = s \<and>
      setIdleState env result info udi s = Inr s \<and>
      setAccessibilityState isAccessible udi s = s)"
  by (simp add: setIdleState_invalid setIdleState_untracked requested_untracked)

theorem stale_and_untracked_events_are_ignored_witness:
  "\<not> isValid (solid (world (bare_device False) 2000) ''udi-1'') \<and>
   setIdleState (world (bare_device False) 2000) NoError (QVariant_Bool True) ''udi-1''
     (setCheckingState ''udi-1'' (addMonitoringDevice (world (usb_volume True) 1000) ''udi-1''
        DevicesStateMonitor_new)) =
   Inr (setCheckingState ''udi-1'' (addMonitoringDevice (world (usb_volume True) 1000) ''udi-1''
        DevicesStateMonitor_new)) \<and>
   m_devicesStates DevicesStateMonitor_new ''udi-2'' = None \<and>
   setMountingState ''udi-2'' DevicesStateMonitor_new = DevicesStateMonitor_new \<and>
   setIdleState (world (usb_volume True) 1000) OperationFailed QVariant_Invalid ''udi-2''
     DevicesStateMonitor_new = Inr DevicesStateMonitor_new \<and>
   setAccessibilityState True ''udi-2'' DevicesStateMonitor_new = DevicesStateMonitor_new"
  using stale_and_untracked_events_are_ignored
    [of "world (bare_device False) 2000" "''udi-1''" NoError "QVariant_Bool True"
      "setCheckingState ''udi-1'' (addMonitoringDevice (world (usb_volume True) 1000) ''udi-1''
        DevicesStateMonitor_new)" True]
    stale_and_untracked_events_are_ignored
    [of "world (usb_volume True) 1000" "''udi-2''" OperationFailed QVariant_Invalid
      DevicesStateMonitor_new True]
  by (simp add: world_def bare_device_def DevicesStateMonitor_new_def)

subsection \<open>Registration is idempotent\<close>

text \<open>
  Claim C6. \<^verbatim>\<open>addMonitoringDevice\<close> for a udi that is monitored already returns the
  monitor as it was (no record is reset, no field changes, nothing is emitted), whatever the
  world looks like by then; so registering a udi twice is registering it once.
\<close>

theorem addMonitoringDevice_idempotent:
  "(m_devicesStates s udi \<noteq> None \<longrightarrow> addMonitoringDevice env' udi s = s) \<and>
   addMonitoringDevice env' udi (addMonitoringDevice env udi s) = addMonitoringDevice env udi s"
proof -
  have "m_devicesStates (addMonitoringDevice env udi s) udi \<noteq> None"
    by (cases "m_devicesStates s udi")
      (simp_all add: devices_addMonitoringDevice addMonitoringDevice_tracked)
  then show ?thesis
    by (simp add: addMonitoringDevice_tracked)
qed

theorem addMonitoringDevice_idempotent_witness:
  "m_devicesStates (addMonitoringDevice (world (usb_volume True) 1000) ''udi-1''
      DevicesStateMonitor_new) ''udi-1'' \<noteq> None \<and>
   addMonitoringDevice (world (usb_volume False) 2000) ''udi-1''
     (addMonitoringDevice (world (usb_volume True) 1000) ''udi-1'' DevicesStateMonitor_new) =
   addMonitoringDevice (world (usb_volume True) 1000) ''udi-1'' DevicesStateMonitor_new \<and>
   emitted (effects (addMonitoringDevice (world (usb_volume False) 2000) ''udi-1''
     (addMonitoringDevice (world (usb_volume True) 1000) ''udi-1'' DevicesStateMonitor_new))) =
   [''udi-1'']"
proof -
  have new: "m_devicesStates DevicesStateMonitor_new ''udi-1'' = None"
    by (simp add: DevicesStateMonitor_new_def)
  have tracked: "m_devicesStates (addMonitoringDevice (world (usb_volume True) 1000) ''udi-1''
      DevicesStateMonitor_new) ''udi-1'' \<noteq> None"
    by (simp add: devices_addMonitoringDevice [OF new])
  have once: "emitted (effects (addMonitoringDevice (world (usb_volume True) 1000) ''udi-1''
      DevicesStateMonitor_new)) = [''udi-1'']"
    by (simp add: emitted_addMonitoringDevice [OF new]) (simp add: DevicesStateMonitor_new_def)
  show ?thesis
    using addMonitoringDevice_idempotent
      [of "addMonitoringDevice (world (usb_volume True) 1000) ''udi-1'' DevicesStateMonitor_new"
        "''udi-1''" "world (usb_volume False) 2000" "world (usb_volume True) 1000"]
      tracked once
    by simp
qed

subsection \<open>The order of the steps of a registration and of a removal\<close>




subsection \<open>A device without the storage access\<close>

text \<open>
  Claim C8 fails on the code: \<^verbatim>\<open>setIdleState\<close> dereferences the pointer
  \<^verbatim>\<open>device.as<Solid::StorageAccess>()\<close> without the test that \<^verbatim>\<open>addMonitoringDevice\<close> and
  \<^verbatim>\<open>removeMonitoringDevice\<close> make. For a valid device without a storage access, the end of
  a mount, of an unmount, and of a successful check whose information is false each end in a
  dereference of the null pointer, whether the storage access was there at registration (the
  first sequence) or not.
\<close>

theorem operation_done_without_storage_access_faults:
  "run
     [(world (usb_volume False) 1000, Call_addMonitoringDevice ''udi-1''),
      (world (usb_volume False) 2000, Call_setMountingState ''udi-1''),
      (world volume_without_access 3000, Call_setIdleState NoError QVariant_Invalid ''udi-1'')]
     DevicesStateMonitor_new = Inl NullPointerDereference \<and>
   run
     [(world volume_without_access 1000, Call_addMonitoringDevice ''udi-1''),
      (world volume_without_access 2000, Call_setUnmountingState ''udi-1''),
      (world volume_without_access 3000, Call_setIdleState NoError QVariant_Invalid ''udi-1'')]
     DevicesStateMonitor_new = Inl NullPointerDereference \<and>
   run
     [(world volume_without_access 1000, Call_addMonitoringDevice ''udi-1''),
      (world volume_without_access 2000, Call_setCheckingState ''udi-1''),
      (world volume_without_access 3000,
       Call_setIdleState NoError (QVariant_Bool False) ''udi-1'')]
     DevicesStateMonitor_new = Inl NullPointerDereference"
  by (simp add: monitor_defs example_defs)

subsection \<open>The time stamp\<close>

text \<open>
  Claim C9, as the code has it. The time stamp of a record is the time of its registration,
  and no call changes it for as long as the udi stays monitored: the slots do not read the
  clock.
\<close>

theorem time_stamp_is_time_of_registration:
  "(m_devicesStates s udi = None \<longrightarrow>
      getDeviceTimeStamp (addMonitoringDevice env udi s) udi =
        DateTime (currentDateTimeUtc env)) \<and>
   (exec env c s = Inr s' \<and> m_devicesStates s udi \<noteq> None \<and> m_devicesStates s' udi \<noteq> None \<longrightarrow>
      getDeviceTimeStamp s' udi = getDeviceTimeStamp s udi)"
proof -
  have "getDeviceTimeStamp (addMonitoringDevice env udi s) udi = DateTime (currentDateTimeUtc env)"
    if "m_devicesStates s udi = None"
    by (simp add: getDeviceTimeStamp_def devices_addMonitoringDevice [OF that] registeredInfo_def
        initialDeviceInfo_def)
  moreover have "getDeviceTimeStamp s' udi = getDeviceTimeStamp s udi"
    if "exec env c s = Inr s'" and "m_devicesStates s udi \<noteq> None"
      and "m_devicesStates s' udi \<noteq> None"
    using exec_keeps [OF that(1)] that(2,3) by (auto simp add: getDeviceTimeStamp_def)
  ultimately show ?thesis by blast
qed

text \<open>
  The claim as it was written fails: a volume registered at time 1000 whose mount is
  requested at time 2000 is Mounting with the time stamp 1000.
\<close>

theorem time_stamp_not_refreshed:
  "exec (world (usb_volume False) 2000) (Call_setMountingState ''udi-1'')
     (addMonitoringDevice (world (usb_volume False) 1000) ''udi-1'' DevicesStateMonitor_new) =
   Inr (setMountingState ''udi-1''
     (addMonitoringDevice (world (usb_volume False) 1000) ''udi-1'' DevicesStateMonitor_new)) \<and>
   currentDateTimeUtc (world (usb_volume False) 2000) = 2000 \<and>
   getState (setMountingState ''udi-1''
     (addMonitoringDevice (world (usb_volume False) 1000) ''udi-1'' DevicesStateMonitor_new))
     ''udi-1'' = Mounting \<and>
   getDeviceTimeStamp (setMountingState ''udi-1''
     (addMonitoringDevice (world (usb_volume False) 1000) ''udi-1'' DevicesStateMonitor_new))
     ''udi-1'' = DateTime 1000 \<and>
   getDeviceTimeStamp (setMountingState ''udi-1''
     (addMonitoringDevice (world (usb_volume False) 1000) ''udi-1'' DevicesStateMonitor_new))
     ''udi-1'' \<noteq> DateTime (currentDateTimeUtc (world (usb_volume False) 2000))"
  by (simp add: monitor_defs example_defs query_defs)

theorem time_stamp_is_time_of_registration_witness:
  "m_devicesStates DevicesStateMonitor_new ''udi-1'' = None \<and>
   getDeviceTimeStamp
     (addMonitoringDevice (world (usb_volume False) 1000) ''udi-1'' DevicesStateMonitor_new)
     ''udi-1'' = DateTime 1000 \<and>
   exec (world (usb_volume False) 2000) (Call_setMountingState ''udi-1'')
     (addMonitoringDevice (world (usb_volume False) 1000) ''udi-1'' DevicesStateMonitor_new) =
   Inr (setMountingState ''udi-1''
     (addMonitoringDevice (world (usb_volume False) 1000) ''udi-1'' DevicesStateMonitor_new)) \<and>
   getDeviceTimeStamp (setMountingState ''udi-1''
     (addMonitoringDevice (world (usb_volume False) 1000) ''udi-1'' DevicesStateMonitor_new))
     ''udi-1'' =
   getDeviceTimeStamp
     (addMonitoringDevice (world (usb_volume False) 1000) ''udi-1'' DevicesStateMonitor_new)
     ''udi-1''"
proof -
  have new: "m_devicesStates DevicesStateMonitor_new ''udi-1'' = None"
    by (simp add: DevicesStateMonitor_new_def)
  have a: "m_devicesStates
     (addMonitoringDevice (world (usb_volume False) 1000) ''udi-1'' DevicesStateMonitor_new)
     ''udi-1'' \<noteq> None"
    by (simp add: devices_addMonitoringDevice [OF new])
  then have b: "m_devicesStates (setMountingState ''udi-1''
     (addMonitoringDevice (world (usb_volume False) 1000) ''udi-1'' DevicesStateMonitor_new))
     ''udi-1'' \<noteq> None"
    by (auto simp add: devices_setMountingState)
  show ?thesis
    using time_stamp_is_time_of_registration
      [of DevicesStateMonitor_new "''udi-1''" "world (usb_volume False) 1000"]
      time_stamp_is_time_of_registration
      [of "addMonitoringDevice (world (usb_volume False) 1000) ''udi-1'' DevicesStateMonitor_new"
        "''udi-1''" "world (usb_volume False) 2000" "Call_setMountingState ''udi-1''"
        "setMountingState ''udi-1''
          (addMonitoringDevice (world (usb_volume False) 1000) ''udi-1'' DevicesStateMonitor_new)"]
      new a b
    by (simp add: world_def)
qed

subsection \<open>The removable flag\<close>

text \<open>
  Claim C10, as the code has it. At registration \<^verbatim>\<open>isRemovable\<close> becomes
  \<open>probedRemovable\<close> of the device: true for a camera and for a portable media player;
  otherwise, when the device has a storage drive among its ancestors, whether that drive is
  removable or hotpluggable; otherwise, when the device is a storage drive itself, whether it
  is removable; otherwise false. No call changes the flag for as long as the udi stays
  monitored.
\<close>

theorem removable_flag:
  "(m_devicesStates s udi = None \<longrightarrow>
      isRemovable_udi (addMonitoringDevice env udi s) udi = probedRemovable (solid env udi)) \<and>
   (exec env c s = Inr s' \<and> m_devicesStates s udi \<noteq> None \<and> m_devicesStates s' udi \<noteq> None \<longrightarrow>
      isRemovable_udi s' udi = isRemovable_udi s udi)"
proof -
  have "isRemovable_udi (addMonitoringDevice env udi s) udi = probedRemovable (solid env udi)"
    if "m_devicesStates s udi = None"
    by (simp add: isRemovable_udi_def devices_addMonitoringDevice [OF that] registeredInfo_def)
  moreover have "isRemovable_udi s' udi = isRemovable_udi s udi"
    if "exec env c s = Inr s'" and "m_devicesStates s udi \<noteq> None"
      and "m_devicesStates s' udi \<noteq> None"
    using exec_keeps [OF that(1)] that(2,3) by (auto simp add: isRemovable_udi_def)
  ultimately show ?thesis by blast
qed

text \<open>
  The claim as it was written fails, since the flag is not the disjunction of the four
  conditions: a storage drive that is hotpluggable and not removable is registered as not
  removable, and so is a removable storage drive below a drive that is neither removable nor
  hotpluggable.
\<close>

theorem removable_flag_is_not_a_union:
  "is_StorageDrive hotplug_drive \<and>
   as_StorageDrive hotplug_drive =
     Some \<lparr>drive_object = 4, drive_isRemovable = False, drive_isHotpluggable = True\<rparr> \<and>
   isRemovable_udi
     (addMonitoringDevice (world hotplug_drive 1000) ''udi-1'' DevicesStateMonitor_new)
     ''udi-1'' = False \<and>
   is_StorageDrive removable_drive_on_fixed_drive \<and>
   as_StorageDrive removable_drive_on_fixed_drive =
     Some \<lparr>drive_object = 5, drive_isRemovable = True, drive_isHotpluggable = False\<rparr> \<and>
   isRemovable_udi
     (addMonitoringDevice (world removable_drive_on_fixed_drive 1000) ''udi-1''
        DevicesStateMonitor_new)
     ''udi-1'' = False"
  by (simp add: monitor_defs example_defs query_defs)

theorem removable_flag_witness:
  "m_devicesStates DevicesStateMonitor_new ''udi-1'' = None \<and>
   isRemovable_udi
     (addMonitoringDevice (world (usb_volume False) 1000) ''udi-1'' DevicesStateMonitor_new)
     ''udi-1'' = True \<and>
   exec (world (bare_device True) 2000) (Call_setMountingState ''udi-1'')
     (addMonitoringDevice (world (usb_volume False) 1000) ''udi-1'' DevicesStateMonitor_new) =
   Inr (setMountingState ''udi-1''
     (addMonitoringDevice (world (usb_volume False) 1000) ''udi-1'' DevicesStateMonitor_new)) \<and>
   isRemovable_udi (setMountingState ''udi-1''
     (addMonitoringDevice (world (usb_volume False) 1000) ''udi-1'' DevicesStateMonitor_new))
     ''udi-1'' =
   isRemovable_udi
     (addMonitoringDevice (world (usb_volume False) 1000) ''udi-1'' DevicesStateMonitor_new)
     ''udi-1''"
proof -
  have new: "m_devicesStates DevicesStateMonitor_new ''udi-1'' = None"
    by (simp add: DevicesStateMonitor_new_def)
  have a: "m_devicesStates
     (addMonitoringDevice (world (usb_volume False) 1000) ''udi-1'' DevicesStateMonitor_new)
     ''udi-1'' \<noteq> None"
    by (simp add: devices_addMonitoringDevice [OF new])
  then have b: "m_devicesStates (setMountingState ''udi-1''
     (addMonitoringDevice (world (usb_volume False) 1000) ''udi-1'' DevicesStateMonitor_new))
     ''udi-1'' \<noteq> None"
    by (auto simp add: devices_setMountingState)
  have p: "probedRemovable (usb_volume False) = True"
    by (simp add: probedRemovable_def example_defs)
  show ?thesis
    using removable_flag
      [of DevicesStateMonitor_new "''udi-1''" "world (usb_volume False) 1000"]
      removable_flag
      [of "addMonitoringDevice (world (usb_volume False) 1000) ''udi-1'' DevicesStateMonitor_new"
        "''udi-1''" "world (bare_device True) 2000" "Call_setMountingState ''udi-1''"
        "setMountingState ''udi-1''
          (addMonitoringDevice (world (usb_volume False) 1000) ''udi-1'' DevicesStateMonitor_new)"]
      new a b p
    by (simp add: world_def)
qed

end
